theory Spec2Isabelle
  imports Complex_Main "HOL-Library.Word"
begin

section \<open>Data model\<close>

text \<open>
  The two procedures of \<^verbatim>\<open>app.py\<close> verified here, \<^verbatim>\<open>clean_and_validate_data\<close>
  (the Normalizer) and \<^verbatim>\<open>calculate_smart_recommendations\<close> (the Allocator), work on
  pandas data frames. A frame is modelled by its list of column names and its list of rows,
  a row by the map from column name to cell that \<^verbatim>\<open>row['Tonnage']\<close> reads and
  \<^verbatim>\<open>df.loc[idx, 'Tonnage'] = v\<close> writes. Row labels are taken to be distinct (the
  application slices a freshly read sheet), so a row is identified by its position.

  A cell holds a number, the missing value \<^verbatim>\<open>NaN\<close>, or a payload that is not a number,
  on which \<^verbatim>\<open>float(...)\<close> raises. Python floats are idealised as rationals: every
  arithmetic step is exact, and \<^verbatim>\<open>round\<close> rounds the exact value half to even, as
  Python does on the exact value of a float.

  A column has a dtype. The loader's \<^verbatim>\<open>pd.to_numeric(...).fillna(0)\<close> leaves a sheet column
  of whole numbers as \<^verbatim>\<open>int64\<close>, and the sum of an \<^verbatim>\<open>int64\<close> column wraps around. The
  frame therefore lists its \<^verbatim>\<open>int64\<close> columns; the cells of such a column are whole numbers
  of the \<^verbatim>\<open>int64\<close> range. Every other column is \<^verbatim>\<open>float64\<close> or \<^verbatim>\<open>object\<close>.
\<close>

datatype cell = Num rat | NaN | Bad

datatype error = KeyError | ValueError | TypeError

type_synonym row = "string \<rightharpoonup> cell"

record frame =
  columns :: "string list"
  int64_columns :: "string list"
  rows :: "row list"

text \<open>\<^verbatim>\<open>df.empty\<close>: true when either axis has length zero.\<close>

definition df_empty :: "frame \<Rightarrow> bool" where
  "df_empty df = (columns df = [] \<or> rows df = [])"

text \<open>\<^verbatim>\<open>pd.DataFrame()\<close>: the fresh frame without columns and without rows.\<close>

definition DataFrame :: frame where
  "DataFrame = \<lparr>columns = [], int64_columns = [], rows = []\<rparr>"

definition required_cols :: "string list" where
  "required_cols = [''Tonnage'', ''Yield'', ''Revenue'']"

definition missing_cols :: "frame \<Rightarrow> string list" where
  "missing_cols df = filter (\<lambda>col. col \<notin> set (columns df)) required_cols"

section \<open>Column dtypes\<close>

text \<open>A value that an \<^verbatim>\<open>int64\<close> column holds without loss: a whole number of the range.\<close>

definition holds_int64 :: "cell option \<Rightarrow> bool" where
  "holds_int64 c =
     (case c of
        Some (Num q) \<Rightarrow> of_int \<lfloor>q\<rfloor> = q \<and> - (2 ^ 63) \<le> q \<and> q < 2 ^ 63
      | _ \<Rightarrow> False)"

text \<open>
  The dtypes after cells were written one by one (\<^verbatim>\<open>df.loc[idx, col] = v\<close>,
  \<^verbatim>\<open>df.at[idx, col] = v\<close>): an \<^verbatim>\<open>int64\<close> column stays \<^verbatim>\<open>int64\<close> when it holds every
  value written, and is upcast to \<^verbatim>\<open>float64\<close> by the first value it cannot hold. That is
  the behaviour of pandas 2, the values of the cells being the same either way; what a
  later pandas does with a fraction written into an \<^verbatim>\<open>int64\<close> column is not fixed by the
  source, and no result below depends on it.
\<close>

definition settle_dtypes :: "frame \<Rightarrow> frame" where
  "settle_dtypes df =
     df\<lparr>int64_columns :=
          filter (\<lambda>col. list_all (\<lambda>r. holds_int64 (r col)) (rows df)) (int64_columns df)\<rparr>"

text \<open>
  Two's-complement wrap-around of \<^verbatim>\<open>int64\<close> addition, on the exact total: the total is
  reduced modulo \<open>2\<^sup>6\<^sup>4\<close> into the range from \<open>-2\<^sup>6\<^sup>3\<close> up to \<open>2\<^sup>6\<^sup>3 - 1\<close>.
\<close>

definition wrap_int64 :: "rat \<Rightarrow> rat" where
  "wrap_int64 x = x - 2 ^ 64 * of_int \<lfloor>(x + 2 ^ 63) / 2 ^ 64\<rfloor>"

section \<open>Python's round\<close>

definition round_half_even :: "rat \<Rightarrow> int" where
  "round_half_even x =
     (let f = \<lfloor>x\<rfloor>; d = x - of_int f
      in if d < 1 / 2 then f
         else if 1 / 2 < d then f + 1
         else if even f then f else f + 1)"

definition py_round :: "rat \<Rightarrow> nat \<Rightarrow> rat" where
  "py_round x ndigits = of_int (round_half_even (x * 10 ^ ndigits)) / 10 ^ ndigits"

section \<open>clean_and_validate_data\<close>

text \<open>\<^verbatim>\<open>float(x) if pd.notna(x) else 0\<close>\<close>

fun to_number :: "cell \<Rightarrow> error + rat" where
  "to_number (Num q) = Inr q"
| "to_number NaN = Inr 0"
| "to_number Bad = Inl ValueError"

definition number_at :: "row \<Rightarrow> string \<Rightarrow> error + rat" where
  "number_at r col = (case r col of None \<Rightarrow> Inl KeyError | Some x \<Rightarrow> to_number x)"

text \<open>The three reads at the head of the loop body; the first one that raises ends them.\<close>

definition row_numbers :: "row \<Rightarrow> error + (rat \<times> rat \<times> rat)" where
  "row_numbers r =
     (case number_at r ''Tonnage'' of Inl e \<Rightarrow> Inl e | Inr tonnage \<Rightarrow>
      (case number_at r ''Yield'' of Inl e \<Rightarrow> Inl e | Inr yield_val \<Rightarrow>
       (case number_at r ''Revenue'' of Inl e \<Rightarrow> Inl e | Inr revenue \<Rightarrow>
          Inr (tonnage, yield_val, revenue))))"

definition zero_row :: "row \<Rightarrow> row" where
  "zero_row r = r(''Tonnage'' \<mapsto> Num 0, ''Yield'' \<mapsto> Num 0, ''Revenue'' \<mapsto> Num 0)"

text \<open>
  One pass of the loop body on the row at \<^verbatim>\<open>idx\<close>. The \<^verbatim>\<open>except\<close> branch zeroes the
  row. Revenue is rounded from the product of the clamped, unrounded tonnage and yield
  (the local variables), while the Tonnage and Yield cells receive the rounded values.
\<close>

definition clean_row :: "row \<Rightarrow> row" where
  "clean_row r =
     (case row_numbers r of
        Inl e \<Rightarrow> zero_row r
      | Inr (t, y, v) \<Rightarrow>
          (let tonnage = max 0 t; yield_val = max 0 y; revenue = max 0 v
           in if tonnage = 0 \<or> yield_val = 0 then zero_row r
              else r(''Tonnage'' \<mapsto> Num (py_round tonnage 0),
                     ''Yield'' \<mapsto> Num (py_round yield_val 2),
                     ''Revenue'' \<mapsto> Num (py_round (tonnage * yield_val) 2))))"

text \<open>
  Each iteration reads and writes the row at its own label only, so the loop over
  \<^verbatim>\<open>iterrows()\<close> is the row-wise map, followed by the dtypes that the writes leave. The
  frame is always given (the \<^verbatim>\<open>None\<close> argument is left out of the model).
\<close>

definition clean_and_validate_data :: "frame \<Rightarrow> frame" where
  "clean_and_validate_data df =
     (if df_empty df then DataFrame
      else if missing_cols df \<noteq> [] then df
      else settle_dtypes (df\<lparr>rows := map clean_row (rows df)\<rparr>))"

section \<open>calculate_smart_recommendations\<close>

text \<open>
  \<^verbatim>\<open>column > 0\<close> on one cell: \<^verbatim>\<open>NaN > 0\<close> is false, and the comparison of a payload
  that is not a number raises.
\<close>

fun gt0 :: "cell \<Rightarrow> error + bool" where
  "gt0 (Num q) = Inr (0 < q)"
| "gt0 NaN = Inr False"
| "gt0 Bad = Inl TypeError"

definition gt0_at :: "row \<Rightarrow> string \<Rightarrow> error + bool" where
  "gt0_at r col = (case r col of None \<Rightarrow> Inl KeyError | Some x \<Rightarrow> gt0 x)"

text \<open>
  The row's entry of the boolean mask
  \<^verbatim>\<open>(df['Tonnage'] > 0) & (df['Yield'] > 0) & (df['Revenue'] > 0)\<close>.
\<close>

definition valid_row :: "row \<Rightarrow> error + bool" where
  "valid_row r =
     (case gt0_at r ''Tonnage'' of Inl e \<Rightarrow> Inl e | Inr a \<Rightarrow>
      (case gt0_at r ''Yield'' of Inl e \<Rightarrow> Inl e | Inr b \<Rightarrow>
       (case gt0_at r ''Revenue'' of Inl e \<Rightarrow> Inl e | Inr c \<Rightarrow> Inr (a \<and> b \<and> c))))"

text \<open>
  The whole mask: pandas compares whole columns, so one raising cell anywhere makes the
  expression raise, which the outer \<^verbatim>\<open>except\<close> of the function catches.
\<close>

fun valid_mask :: "row list \<Rightarrow> error + bool list" where
  "valid_mask [] = Inr []"
| "valid_mask (r # rs) =
     (case valid_row r of
        Inl e \<Rightarrow> Inl e
      | Inr b \<Rightarrow> (case valid_mask rs of Inl e \<Rightarrow> Inl e | Inr bs \<Rightarrow> Inr (b # bs)))"

text \<open>\<^verbatim>\<open>valid_data = df[mask].copy()\<close>: the rows whose mask entry is true, in order.\<close>

definition valid_data :: "row list \<Rightarrow> bool list \<Rightarrow> row list" where
  "valid_data rs flags = map fst (filter snd (zip rs flags))"

text \<open>The number in a cell as a sum adds it: a missing value is skipped.\<close>

definition cell_value :: "cell option \<Rightarrow> rat" where
  "cell_value c = (case c of Some (Num q) \<Rightarrow> q | _ \<Rightarrow> 0)"

text \<open>
  The exact total of a column over some rows: the \<open>\<Sum>\<close> of the specification. It is not
  what the code computes on an \<^verbatim>\<open>int64\<close> column.
\<close>

definition column_sum :: "string \<Rightarrow> row list \<Rightarrow> rat" where
  "column_sum col rs = sum_list (map (\<lambda>r. cell_value (r col)) rs)"

text \<open>
  \<^verbatim>\<open>valid_data[col].sum()\<close>, on rows selected from the frame \<open>df\<close> (the selection keeps the
  dtypes): the sum of an \<^verbatim>\<open>int64\<close> column wraps around, the sum of a float column is the
  exact total.
\<close>

definition series_sum :: "frame \<Rightarrow> string \<Rightarrow> row list \<Rightarrow> rat" where
  "series_sum df col rs =
     (if col \<in> set (int64_columns df) then wrap_int64 (column_sum col rs)
      else column_sum col rs)"

definition tonnage_weight :: "rat \<Rightarrow> row \<Rightarrow> rat" where
  "tonnage_weight total_current_tonnage r = cell_value (r ''Tonnage'') / total_current_tonnage"

definition revenue_weight :: "rat \<Rightarrow> row \<Rightarrow> rat" where
  "revenue_weight total_current_revenue r = cell_value (r ''Revenue'') / total_current_revenue"

definition combined_weight :: "rat \<Rightarrow> rat \<Rightarrow> row \<Rightarrow> rat" where
  "combined_weight total_current_tonnage total_current_revenue r =
     (tonnage_weight total_current_tonnage r + revenue_weight total_current_revenue r) / 2"

text \<open>
  One pass of the distribution loop on a row and its mask entry
  (\<^verbatim>\<open>idx in valid_data.index\<close>).
\<close>

definition distribute_row :: "rat \<Rightarrow> rat \<Rightarrow> rat \<Rightarrow> rat \<Rightarrow> rat \<Rightarrow> row \<times> bool \<Rightarrow> row" where
  "distribute_row target_tonnage target_revenue target_avg_yield
       total_current_tonnage total_current_revenue rb =
     (case rb of (r, in_valid) \<Rightarrow>
        if in_valid then
          (let weight = combined_weight total_current_tonnage total_current_revenue r;
               agent_target_tonnage = target_tonnage * weight;
               agent_target_revenue = target_revenue * weight;
               calculated_yield =
                 (if 0 < agent_target_tonnage then agent_target_revenue / agent_target_tonnage
                  else target_avg_yield)
           in r(''Tonnage'' \<mapsto> Num agent_target_tonnage,
                ''Revenue'' \<mapsto> Num agent_target_revenue,
                ''Yield'' \<mapsto> Num calculated_yield))
        else r(''Tonnage'' \<mapsto> Num 0, ''Revenue'' \<mapsto> Num 0, ''Yield'' \<mapsto> Num 0))"

text \<open>The equal distribution written into the three columns when no row is valid.\<close>

definition equal_split :: "rat \<Rightarrow> rat \<Rightarrow> rat \<Rightarrow> nat \<Rightarrow> row \<Rightarrow> row" where
  "equal_split target_tonnage target_revenue target_avg_yield num_agents r =
     r(''Tonnage'' \<mapsto> Num (target_tonnage / of_nat num_agents),
       ''Yield'' \<mapsto> Num target_avg_yield,
       ''Revenue'' \<mapsto> Num (target_revenue / of_nat num_agents))"

text \<open>
  The equal distribution: each of the three columns is replaced by one float
  (\<^verbatim>\<open>df['Tonnage'] = target_tonnage / num_agents\<close>), which makes the column \<^verbatim>\<open>float64\<close>.
\<close>

definition equal_distribution :: "frame \<Rightarrow> rat \<Rightarrow> rat \<Rightarrow> rat \<Rightarrow> frame" where
  "equal_distribution recommendations_df target_tonnage target_revenue target_avg_yield =
     (let num_agents = length (rows recommendations_df)
      in if 0 < num_agents
         then recommendations_df
                \<lparr>int64_columns :=
                   filter (\<lambda>col. col \<notin> set required_cols) (int64_columns recommendations_df),
                 rows := map (equal_split target_tonnage target_revenue target_avg_yield
                                num_agents) (rows recommendations_df)\<rparr>
         else recommendations_df)"

definition calculate_smart_recommendations :: "frame \<Rightarrow> rat \<Rightarrow> rat \<Rightarrow> rat \<Rightarrow> frame" where
  "calculate_smart_recommendations week_df target_tonnage target_revenue target_avg_yield =
     (if df_empty week_df then DataFrame
      else if target_tonnage \<le> 0 \<or> target_revenue \<le> 0 \<or> target_avg_yield \<le> 0 then week_df
      else if missing_cols week_df \<noteq> [] then week_df
      else
        (case valid_mask (rows week_df) of
           Inl e \<Rightarrow> week_df
         | Inr flags \<Rightarrow>
             if valid_data (rows week_df) flags = [] then
               clean_and_validate_data
                 (equal_distribution week_df target_tonnage target_revenue target_avg_yield)
             else
               (let total_current_tonnage =
                      series_sum week_df ''Tonnage'' (valid_data (rows week_df) flags);
                    total_current_revenue =
                      series_sum week_df ''Revenue'' (valid_data (rows week_df) flags)
                in if total_current_tonnage = 0 \<or> total_current_revenue = 0 then week_df
                   else clean_and_validate_data
                          (settle_dtypes
                             (week_df\<lparr>rows := map (distribute_row target_tonnage target_revenue
                                                     target_avg_yield total_current_tonnage
                                                     total_current_revenue)
                                                   (zip (rows week_df) flags)\<rparr>)))))"

section \<open>Example tables\<close>

text \<open>Scenario A of the specification, with the week column of the application's sheets.\<close>

definition scenario_A :: frame where
  "scenario_A =
     \<lparr>columns = [''Week'', ''Tonnage'', ''Yield'', ''Revenue''], int64_columns = [],
      rows = [Map.empty(''Week'' \<mapsto> Num 7, ''Tonnage'' \<mapsto> Num 100, ''Yield'' \<mapsto> Num 2,
               ''Revenue'' \<mapsto> Num 200),
              Map.empty(''Week'' \<mapsto> Num 7, ''Tonnage'' \<mapsto> Num 300, ''Yield'' \<mapsto> Num 3,
               ''Revenue'' \<mapsto> Num 900)]\<rparr>"

text \<open>Scenario B: the second row has tonnage \<open>-5\<close>; the agent column holds text.\<close>

definition scenario_B :: frame where
  "scenario_B =
     \<lparr>columns = [''Agent'', ''Tonnage'', ''Yield'', ''Revenue''], int64_columns = [],
      rows = [Map.empty(''Agent'' \<mapsto> Bad, ''Tonnage'' \<mapsto> Num 100, ''Yield'' \<mapsto> Num 2,
               ''Revenue'' \<mapsto> Num 200),
              Map.empty(''Agent'' \<mapsto> Bad, ''Tonnage'' \<mapsto> Num (- 5), ''Yield'' \<mapsto> Num 3,
               ''Revenue'' \<mapsto> Num (- 15))]\<rparr>"

text \<open>One row with tonnage \<open>100.25\<close>, yield \<open>2.0\<close> and revenue \<open>200.5\<close>.\<close>

definition fractional_tonnage :: frame where
  "fractional_tonnage =
     \<lparr>columns = [''Agent'', ''Tonnage'', ''Yield'', ''Revenue''], int64_columns = [],
      rows = [Map.empty(''Agent'' \<mapsto> Bad, ''Tonnage'' \<mapsto> Num (401 / 4), ''Yield'' \<mapsto> Num 2,
               ''Revenue'' \<mapsto> Num (401 / 2))]\<rparr>"

text \<open>\<^verbatim>\<open>pd.DataFrame(index=[0, 1])\<close>: two row labels and no column.\<close>

definition no_columns :: frame where
  "no_columns = \<lparr>columns = [], int64_columns = [], rows = [Map.empty, Map.empty]\<rparr>"

text \<open>\<^verbatim>\<open>pd.DataFrame(columns=['Tonnage', 'Yield', 'Revenue'])\<close>: the three columns, no row.\<close>

definition header_only :: frame where
  "header_only = \<lparr>columns = [''Tonnage'', ''Yield'', ''Revenue''], int64_columns = [], rows = []\<rparr>"

text \<open>\<^verbatim>\<open>pd.DataFrame(columns=['Week'])\<close>: a week column and no row.\<close>

definition week_only_header :: frame where
  "week_only_header = \<lparr>columns = [''Week''], int64_columns = [], rows = []\<rparr>"

text \<open>A table of one row without the revenue column.\<close>

definition missing_revenue :: frame where
  "missing_revenue =
     \<lparr>columns = [''Tonnage'', ''Yield''], int64_columns = [],
      rows = [Map.empty(''Tonnage'' \<mapsto> Num (- 5), ''Yield'' \<mapsto> Num (7 / 2))]\<rparr>"

text \<open>Three rows, none of them valid: a zero row, a missing tonnage, a negative revenue.\<close>

definition no_valid_rows :: frame where
  "no_valid_rows =
     \<lparr>columns = [''Agent'', ''Tonnage'', ''Yield'', ''Revenue''], int64_columns = [],
      rows = [Map.empty(''Agent'' \<mapsto> Bad, ''Tonnage'' \<mapsto> Num 0, ''Yield'' \<mapsto> Num 0,
               ''Revenue'' \<mapsto> Num 0),
              Map.empty(''Agent'' \<mapsto> Bad, ''Tonnage'' \<mapsto> NaN, ''Yield'' \<mapsto> Num 2,
               ''Revenue'' \<mapsto> Num 50),
              Map.empty(''Agent'' \<mapsto> Bad, ''Tonnage'' \<mapsto> Num 10, ''Yield'' \<mapsto> Num 2,
               ''Revenue'' \<mapsto> Num (- 20))]\<rparr>"


text \<open>A zero row followed by a row whose tonnage cell holds text: no row is valid.\<close>

definition zero_and_text :: frame where
  "zero_and_text =
     \<lparr>columns = [''Tonnage'', ''Yield'', ''Revenue''], int64_columns = [],
      rows = [Map.empty(''Tonnage'' \<mapsto> Num 0, ''Yield'' \<mapsto> Num 0, ''Revenue'' \<mapsto> Num 0),
              Map.empty(''Tonnage'' \<mapsto> Bad, ''Yield'' \<mapsto> Num 3, ''Revenue'' \<mapsto> Num 5)]\<rparr>"

text \<open>
  A sheet of whole numbers: tonnage and revenue are \<^verbatim>\<open>int64\<close> columns, yield is a float
  column.
\<close>

definition whole_sheet :: frame where
  "whole_sheet =
     \<lparr>columns = [''Week'', ''Tonnage'', ''Yield'', ''Revenue''],
      int64_columns = [''Week'', ''Tonnage'', ''Revenue''],
      rows = [Map.empty(''Week'' \<mapsto> Num 7, ''Tonnage'' \<mapsto> Num 100, ''Yield'' \<mapsto> Num (5 / 2),
               ''Revenue'' \<mapsto> Num 250),
              Map.empty(''Week'' \<mapsto> Num 7, ''Tonnage'' \<mapsto> Num 300, ''Yield'' \<mapsto> Num 3,
               ''Revenue'' \<mapsto> Num 900)]\<rparr>"

text \<open>
  Four valid rows of an \<^verbatim>\<open>int64\<close> tonnage column, each with tonnage \<open>2\<^sup>6\<^sup>2\<close>: the exact
  total is \<open>2\<^sup>6\<^sup>4\<close>.
\<close>

definition overflow_row :: row where
  "overflow_row =
     Map.empty(''Tonnage'' \<mapsto> Num 4611686018427387904, ''Yield'' \<mapsto> Num 1, ''Revenue'' \<mapsto> Num 1)"

definition overflow_sheet :: frame where
  "overflow_sheet =
     \<lparr>columns = [''Tonnage'', ''Yield'', ''Revenue''], int64_columns = [''Tonnage''],
      rows = [overflow_row, overflow_row, overflow_row, overflow_row]\<rparr>"

section \<open>Basic facts\<close>

lemma settle_dtypes_simps:
  "columns (settle_dtypes df) = columns df"
  "rows (settle_dtypes df) = rows df"
  by (simp_all add: settle_dtypes_def)

lemma equal_distribution_simps:
  "columns (equal_distribution df tt tr ty) = columns df"
  "rows (equal_distribution df tt tr ty)
     = map (equal_split tt tr ty (length (rows df))) (rows df)"
  by (simp_all add: equal_distribution_def Let_def)

lemma wrap_int64_in_range:
  assumes "- (2 ^ 63) \<le> x" and "x < 2 ^ 63"
  shows "wrap_int64 x = x"
proof -
  have "0 \<le> (x + 2 ^ 63) / 2 ^ 64" "(x + 2 ^ 63) / 2 ^ 64 < 1"
    using assms by simp_all
  then have "\<lfloor>(x + 2 ^ 63) / 2 ^ 64\<rfloor> = 0" by (simp add: floor_eq_iff)
  then show ?thesis by (simp add: wrap_int64_def)
qed

text \<open>On whole numbers \<open>wrap_int64\<close> is the signed value of the 64-bit word.\<close>

lemma wrap_int64_word: "wrap_int64 (of_int k) = of_int (sint (word_of_int k :: 64 word))"
proof -
  have "(of_int k + 2 ^ 63) / (2 ^ 64 :: rat) = of_int (k + 2 ^ 63) / of_int (2 ^ 64)"
    by simp
  then have "\<lfloor>(of_int k + 2 ^ 63) / (2 ^ 64 :: rat)\<rfloor> = (k + 2 ^ 63) div 2 ^ 64"
    by (simp only: floor_divide_of_int_eq)
  then have "wrap_int64 (of_int k) = of_int (k - 2 ^ 64 * ((k + 2 ^ 63) div 2 ^ 64))"
    by (simp add: wrap_int64_def)
  also have "k - 2 ^ 64 * ((k + 2 ^ 63) div 2 ^ 64) = (k + 2 ^ 63) mod 2 ^ 64 - 2 ^ 63"
    by (simp add: minus_mult_div_eq_mod [symmetric])
  also have "\<dots> = sint (word_of_int k :: 64 word)"
    by (simp add: sint_sbintrunc' signed_take_bit_eq_take_bit_shift take_bit_eq_mod)
  finally show ?thesis .
qed

lemma series_sum_exact:
  assumes "col \<in> set (int64_columns df) \<longrightarrow> column_sum col rs < 2 ^ 63"
    and "0 \<le> column_sum col rs"
  shows "series_sum df col rs = column_sum col rs"
proof (cases "col \<in> set (int64_columns df)")
  case True
  with assms have "- (2 ^ 63) \<le> column_sum col rs" "column_sum col rs < 2 ^ 63"
    by simp_all
  then show ?thesis using True by (simp add: series_sum_def wrap_int64_in_range)
next
  case False
  then show ?thesis by (simp add: series_sum_def)
qed


lemma clean_rows:
  "\<not> df_empty df \<Longrightarrow> missing_cols df = [] \<Longrightarrow>
   rows (clean_and_validate_data df) = map clean_row (rows df)"
  by (simp add: clean_and_validate_data_def settle_dtypes_simps)

lemma clean_row_other:
  "col \<notin> set required_cols \<Longrightarrow> clean_row r col = r col"
  by (auto simp: clean_row_def zero_row_def required_cols_def Let_def
           split: sum.splits prod.splits)

lemma equal_split_other:
  "col \<notin> set required_cols \<Longrightarrow> equal_split tt tr ty n r col = r col"
  by (simp add: equal_split_def required_cols_def)

lemma distribute_row_other:
  "col \<notin> set required_cols \<Longrightarrow> distribute_row tt tr ty a b (r, f) col = r col"
  by (simp add: distribute_row_def required_cols_def Let_def)

lemma zero_row_cells:
  "zero_row r ''Tonnage'' = Some (Num 0)"
  "zero_row r ''Yield'' = Some (Num 0)"
  "zero_row r ''Revenue'' = Some (Num 0)"
  by (simp_all add: zero_row_def)

lemma clean_row_nonpositive:
  assumes "(\<exists>t. r ''Tonnage'' = Some (Num t) \<and> t \<le> 0) \<or>
           (\<exists>y. r ''Yield'' = Some (Num y) \<and> y \<le> 0)"
  shows "clean_row r = zero_row r"
  using assms
  by (auto simp: clean_row_def row_numbers_def number_at_def Let_def max_def
           split: sum.splits prod.splits option.splits)

lemma valid_mask_length: "valid_mask rs = Inr flags \<Longrightarrow> length flags = length rs"
  by (induction rs arbitrary: flags) (auto split: sum.splits)

text \<open>What the cleaning pass returns on a frame whose rows were rewritten in place.\<close>

lemma clean_rewritten:
  assumes "columns g = columns df" and "length (rows g) = length (rows df)"
    and "\<not> df_empty df" and "missing_cols df = []"
  shows "rows (clean_and_validate_data g) = map clean_row (rows g)"
proof -
  have "\<not> df_empty g" using assms(1-3) by (auto simp: df_empty_def)
  moreover have "missing_cols g = []" using assms(1,4) by (simp add: missing_cols_def)
  ultimately show ?thesis by (rule clean_rows)
qed

text \<open>The rows of the allocator's result, branch by branch.\<close>

lemma recommendations_rows:
  assumes "\<not> df_empty df"
  shows "rows (calculate_smart_recommendations df tt tr ty) = rows df \<or>
         rows (calculate_smart_recommendations df tt tr ty)
           = map clean_row (map (equal_split tt tr ty (length (rows df))) (rows df)) \<or>
         (\<exists>flags a b. length flags = length (rows df) \<and>
            rows (calculate_smart_recommendations df tt tr ty)
              = map clean_row (map (distribute_row tt tr ty a b) (zip (rows df) flags)))"
proof -
  show ?thesis
  proof (cases "(tt \<le> 0 \<or> tr \<le> 0 \<or> ty \<le> 0) \<or> missing_cols df \<noteq> []")
    case True
    then show ?thesis using assms by (auto simp: calculate_smart_recommendations_def)
  next
    case False
    then have m: "missing_cols df = []" and pos: "\<not> (tt \<le> 0 \<or> tr \<le> 0 \<or> ty \<le> 0)"
      by auto
    show ?thesis
    proof (cases "valid_mask (rows df)")
      case (Inl e)
      then show ?thesis using assms m pos by (simp add: calculate_smart_recommendations_def)
    next
      case (Inr flags)
      then have len: "length flags = length (rows df)" by (rule valid_mask_length)
      show ?thesis
      proof (cases "valid_data (rows df) flags = []")
        case True
        have "rows (clean_and_validate_data (equal_distribution df tt tr ty))
                = map clean_row (rows (equal_distribution df tt tr ty))"
          using assms m by (intro clean_rewritten) (simp_all add: equal_distribution_simps)
        then show ?thesis using assms m pos Inr True
          by (simp add: calculate_smart_recommendations_def equal_distribution_simps)
      next
        case False
        let ?a = "series_sum df ''Tonnage'' (valid_data (rows df) flags)"
        let ?b = "series_sum df ''Revenue'' (valid_data (rows df) flags)"
        let ?g = "settle_dtypes
                    (df\<lparr>rows := map (distribute_row tt tr ty ?a ?b) (zip (rows df) flags)\<rparr>)"
        have "rows (clean_and_validate_data ?g) = map clean_row (rows ?g)"
          using assms m len by (intro clean_rewritten) (simp_all add: settle_dtypes_simps)
        then show ?thesis using assms m pos Inr False len
          by (auto simp: calculate_smart_recommendations_def Let_def settle_dtypes_simps)
      qed
    qed
  qed
qed

section \<open>The revenue invariant and idempotence\<close>

text \<open>
  Claim C1 says that every row returned by the Normalizer is \<open>(0, 0, 0)\<close> or has
  revenue equal to \<open>round(round(tonnage, 0) * round(yield, 2), 2)\<close>. The code rounds the
  product of the unrounded tonnage and yield instead. On the row with tonnage \<open>100.25\<close> and
  yield \<open>2\<close> it returns tonnage \<open>100\<close>, yield \<open>2\<close> and revenue \<open>200.5\<close>, where the claim
  asks for revenue \<open>200\<close>.
\<close>

theorem clean_revenue_from_unrounded:
  "(rows (clean_and_validate_data fractional_tonnage) ! 0) ''Tonnage'' = Some (Num 100) \<and>
   (rows (clean_and_validate_data fractional_tonnage) ! 0) ''Yield'' = Some (Num 2) \<and>
   (rows (clean_and_validate_data fractional_tonnage) ! 0) ''Revenue'' = Some (Num (401 / 2)) \<and>
   py_round (py_round 100 0 * py_round 2 2) 2 = 200"
  by code_simp

text \<open>
  Claim C3 says that the Normalizer is idempotent. On the same row a second pass recomputes
  the revenue from the rounded tonnage: the first pass returns revenue \<open>200.5\<close>, the
  second \<open>200\<close>, so the two results differ.
\<close>

theorem clean_twice_differs:
  "(rows (clean_and_validate_data fractional_tonnage) ! 0) ''Revenue'' = Some (Num (401 / 2)) \<and>
   (rows (clean_and_validate_data (clean_and_validate_data fractional_tonnage)) ! 0) ''Revenue''
     = Some (Num 200) \<and>
   clean_and_validate_data (clean_and_validate_data fractional_tonnage)
     \<noteq> clean_and_validate_data fractional_tonnage"
proof -
  have once:
    "(rows (clean_and_validate_data fractional_tonnage) ! 0) ''Revenue'' = Some (Num (401 / 2))"
    by code_simp
  have twice:
    "(rows (clean_and_validate_data (clean_and_validate_data fractional_tonnage)) ! 0) ''Revenue''
       = Some (Num 200)"
    by code_simp
  have "clean_and_validate_data (clean_and_validate_data fractional_tonnage)
          \<noteq> clean_and_validate_data fractional_tonnage"
  proof
    assume "clean_and_validate_data (clean_and_validate_data fractional_tonnage)
              = clean_and_validate_data fractional_tonnage"
    with once twice show False by simp
  qed
  with once twice show ?thesis by simp
qed

section \<open>The all-or-nothing rule\<close>

text \<open>
  Claim C4: in a table with the three columns, a row whose tonnage is a number \<open>\<le> 0\<close> or
  whose yield is a number \<open>\<le> 0\<close> comes out of the Normalizer with tonnage, yield and
  revenue all \<open>0\<close>, whatever its other cells hold.
\<close>

theorem clean_zeroes_nonpositive_row:
  assumes "\<not> df_empty df" and "missing_cols df = []" and "i < length (rows df)"
    and "(\<exists>t. (rows df ! i) ''Tonnage'' = Some (Num t) \<and> t \<le> 0) \<or>
         (\<exists>y. (rows df ! i) ''Yield'' = Some (Num y) \<and> y \<le> 0)"
  shows "(rows (clean_and_validate_data df) ! i) ''Tonnage'' = Some (Num 0) \<and>
         (rows (clean_and_validate_data df) ! i) ''Yield'' = Some (Num 0) \<and>
         (rows (clean_and_validate_data df) ! i) ''Revenue'' = Some (Num 0)"
proof -
  have "rows (clean_and_validate_data df) ! i = clean_row (rows df ! i)"
    using assms(1-3) by (simp add: clean_rows)
  also have "\<dots> = zero_row (rows df ! i)"
    using assms(4) by (rule clean_row_nonpositive)
  finally show ?thesis by (simp add: zero_row_cells)
qed

theorem clean_zeroes_nonpositive_row_witness:
  "\<not> df_empty scenario_B \<and> missing_cols scenario_B = [] \<and> 1 < length (rows scenario_B) \<and>
   (rows scenario_B ! 1) ''Tonnage'' = Some (Num (- 5)) \<and>
   (rows scenario_B ! 1) ''Yield'' = Some (Num 3) \<and>
   (rows scenario_B ! 1) ''Revenue'' = Some (Num (- 15)) \<and>
   (rows (clean_and_validate_data scenario_B) ! 1) ''Tonnage'' = Some (Num 0) \<and>
   (rows (clean_and_validate_data scenario_B) ! 1) ''Yield'' = Some (Num 0) \<and>
   (rows (clean_and_validate_data scenario_B) ! 1) ''Revenue'' = Some (Num 0)"
proof -
  have h: "\<not> df_empty scenario_B" "missing_cols scenario_B = []"
    "1 < length (rows scenario_B)"
    by (simp_all add: scenario_B_def df_empty_def missing_cols_def required_cols_def)
  have cells: "(rows scenario_B ! 1) ''Tonnage'' = Some (Num (- 5))"
    "(rows scenario_B ! 1) ''Yield'' = Some (Num 3)"
    "(rows scenario_B ! 1) ''Revenue'' = Some (Num (- 15))"
    by (simp_all add: scenario_B_def)
  from cells(1)
  have neg: "(\<exists>t. (rows scenario_B ! 1) ''Tonnage'' = Some (Num t) \<and> t \<le> 0) \<or>
             (\<exists>y. (rows scenario_B ! 1) ''Yield'' = Some (Num y) \<and> y \<le> 0)"
    by simp
  show ?thesis using clean_zeroes_nonpositive_row [OF h neg] h cells by simp
qed

section \<open>Row count and row order\<close>

text \<open>
  Claim C8 says that, for every table, the Normalizer and the Allocator return a table
  with the same number of rows in the same order. Both functions start with the guard
  \<^verbatim>\<open>df.empty\<close>, which also holds of a frame that has row labels and no column, and
  return \<^verbatim>\<open>pd.DataFrame()\<close> there: the two rows of such a frame are dropped.
\<close>

theorem same_rows_counterexample:
  "length (rows (clean_and_validate_data no_columns)) = 0 \<and> length (rows no_columns) = 2 \<and>
   length (rows (calculate_smart_recommendations no_columns 800 2400 3)) = 0"
  by (simp add: no_columns_def clean_and_validate_data_def calculate_smart_recommendations_def
        df_empty_def DataFrame_def)

text \<open>
  Claim C8, amended: for every table with at least one column, the Normalizer and the
  Allocator return as many rows as they were given, and row \<open>i\<close> of the result is row \<open>i\<close>
  of the input in every column other than Tonnage, Yield and Revenue (the cells that
  identify the row stay in their place).
\<close>

theorem same_rows_and_order:
  assumes "columns df \<noteq> []"
  shows "length (rows (clean_and_validate_data df)) = length (rows df) \<and>
         length (rows (calculate_smart_recommendations df tt tr ty)) = length (rows df) \<and>
         (\<forall>i < length (rows df). \<forall>col. col \<notin> set required_cols \<longrightarrow>
            (rows (clean_and_validate_data df) ! i) col = (rows df ! i) col \<and>
            (rows (calculate_smart_recommendations df tt tr ty) ! i) col = (rows df ! i) col)"
proof (cases "rows df = []")
  case True
  then show ?thesis
    by (simp add: clean_and_validate_data_def calculate_smart_recommendations_def df_empty_def
          DataFrame_def)
next
  case False
  with assms have ne: "\<not> df_empty df" by (simp add: df_empty_def)
  have clean_len: "length (rows (clean_and_validate_data df)) = length (rows df)"
    using ne by (simp add: clean_and_validate_data_def settle_dtypes_simps)
  have clean_cell: "(rows (clean_and_validate_data df) ! i) col = (rows df ! i) col"
    if "i < length (rows df)" "col \<notin> set required_cols" for i col
    using ne that by (simp add: clean_and_validate_data_def settle_dtypes_simps clean_row_other)
  note branches = recommendations_rows [OF ne, of tt tr ty]
  have rec_len: "length (rows (calculate_smart_recommendations df tt tr ty)) = length (rows df)"
    using branches by auto
  have rec_cell: "(rows (calculate_smart_recommendations df tt tr ty) ! i) col = (rows df ! i) col"
    if "i < length (rows df)" "col \<notin> set required_cols" for i col
    using branches that
    by (auto simp: clean_row_other equal_split_other distribute_row_other)
  show ?thesis using clean_len clean_cell rec_len rec_cell by blast
qed

theorem same_rows_and_order_witness:
  "columns scenario_B \<noteq> [] \<and> length (rows scenario_B) = 2 \<and>
   length (rows (clean_and_validate_data scenario_B)) = 2 \<and>
   length (rows (calculate_smart_recommendations scenario_B 800 2400 3)) = 2 \<and>
   (rows scenario_B ! 1) ''Agent'' = Some Bad \<and>
   (rows (clean_and_validate_data scenario_B) ! 1) ''Agent'' = Some Bad \<and>
   (rows (calculate_smart_recommendations scenario_B 800 2400 3) ! 1) ''Agent'' = Some Bad"
proof -
  have h: "columns scenario_B \<noteq> []" by (simp add: scenario_B_def)
  have len: "length (rows scenario_B) = 2" by (simp add: scenario_B_def)
  have agent: "(rows scenario_B ! 1) ''Agent'' = Some Bad" by (simp add: scenario_B_def)
  have other: "''Agent'' \<notin> set required_cols" by (simp add: required_cols_def)
  note t = same_rows_and_order [OF h, of 800 2400 3]
  from t len have lens: "length (rows (clean_and_validate_data scenario_B)) = 2"
    "length (rows (calculate_smart_recommendations scenario_B 800 2400 3)) = 2"
    by simp_all
  from t have "\<forall>i < length (rows scenario_B). \<forall>col. col \<notin> set required_cols \<longrightarrow>
            (rows (clean_and_validate_data scenario_B) ! i) col = (rows scenario_B ! i) col \<and>
            (rows (calculate_smart_recommendations scenario_B 800 2400 3) ! i) col
              = (rows scenario_B ! i) col"
    by blast
  with len other agent
  have "(rows (clean_and_validate_data scenario_B) ! 1) ''Agent'' = Some Bad \<and>
        (rows (calculate_smart_recommendations scenario_B 800 2400 3) ! 1) ''Agent'' = Some Bad"
    by (metis one_less_numeral_iff semiring_norm(76))
  with h len lens agent show ?thesis by simp
qed

section \<open>Targets that are not positive\<close>

text \<open>
  Claim C5 says that, for every table, the Allocator returns the input unchanged when a
  target is \<open>\<le> 0\<close>. The guard for an empty table comes first: on a table with the three
  columns and no row, \<^verbatim>\<open>allocate(table, 0, 100, 5)\<close> is \<^verbatim>\<open>pd.DataFrame()\<close>, a frame without
  columns.
\<close>

theorem noop_counterexample:
  "calculate_smart_recommendations header_only 0 100 5 \<noteq> header_only"
  by (simp add: header_only_def calculate_smart_recommendations_def df_empty_def DataFrame_def)

text \<open>
  Claim C5, amended: for every non-empty table (at least one row and one column), the
  Allocator returns the input table unchanged when one of the three targets is \<open>\<le> 0\<close>.
\<close>

theorem nonpositive_target_noop:
  assumes "\<not> df_empty df" and "tt \<le> 0 \<or> tr \<le> 0 \<or> ty \<le> 0"
  shows "calculate_smart_recommendations df tt tr ty = df"
  using assms by (simp add: calculate_smart_recommendations_def)

theorem nonpositive_target_noop_witness:
  "\<not> df_empty scenario_A \<and> ((0::rat) \<le> 0 \<or> (100::rat) \<le> 0 \<or> (5::rat) \<le> 0) \<and>
   calculate_smart_recommendations scenario_A 0 100 5 = scenario_A"
proof -
  have h: "\<not> df_empty scenario_A" by (simp add: scenario_A_def df_empty_def)
  have t: "(0::rat) \<le> 0 \<or> (100::rat) \<le> 0 \<or> (5::rat) \<le> 0" by simp
  show ?thesis using nonpositive_target_noop [OF h t] h by simp
qed

section \<open>Missing columns\<close>

text \<open>
  Claim C10 says that a table lacking one of the three columns is returned unchanged by
  both functions. The guard for an empty table comes first here too: a table with a week
  column only and no row lacks all three columns, and both functions return
  \<^verbatim>\<open>pd.DataFrame()\<close>, which has lost the week column.
\<close>

theorem missing_columns_counterexample:
  "missing_cols week_only_header \<noteq> [] \<and>
   clean_and_validate_data week_only_header \<noteq> week_only_header \<and>
   calculate_smart_recommendations week_only_header 800 2400 3 \<noteq> week_only_header"
  by (simp add: week_only_header_def missing_cols_def required_cols_def
        clean_and_validate_data_def calculate_smart_recommendations_def df_empty_def DataFrame_def)

text \<open>
  Claim C10, amended: a non-empty table that lacks one of the columns Tonnage, Yield,
  Revenue is returned unchanged by the Normalizer, and unchanged by the Allocator for all
  targets.
\<close>

theorem missing_columns_unchanged:
  assumes "\<not> df_empty df" and "missing_cols df \<noteq> []"
  shows "clean_and_validate_data df = df \<and> calculate_smart_recommendations df tt tr ty = df"
  using assms by (simp add: clean_and_validate_data_def calculate_smart_recommendations_def)

theorem missing_columns_unchanged_witness:
  "\<not> df_empty missing_revenue \<and> missing_cols missing_revenue = [''Revenue''] \<and>
   clean_and_validate_data missing_revenue = missing_revenue \<and>
   calculate_smart_recommendations missing_revenue 800 2400 3 = missing_revenue"
proof -
  have h: "\<not> df_empty missing_revenue" by (simp add: missing_revenue_def df_empty_def)
  have m: "missing_cols missing_revenue = [''Revenue'']"
    by (simp add: missing_revenue_def missing_cols_def required_cols_def)
  then have m': "missing_cols missing_revenue \<noteq> []" by simp
  show ?thesis using missing_columns_unchanged [OF h m', of 800 2400 3] h m by simp
qed

section \<open>Valid rows and their totals\<close>

lemma valid_row_True:
  assumes "valid_row r = Inr True"
  shows "\<exists>t y v. r ''Tonnage'' = Some (Num t) \<and> 0 < t \<and> r ''Yield'' = Some (Num y) \<and> 0 < y \<and>
                 r ''Revenue'' = Some (Num v) \<and> 0 < v"
proof -
  have *: "gt0_at r col = Inr True \<Longrightarrow> \<exists>q. r col = Some (Num q) \<and> 0 < q" for col
    by (cases "r col") (auto simp: gt0_at_def elim: gt0.elims)
  from assms have "gt0_at r ''Tonnage'' = Inr True" "gt0_at r ''Yield'' = Inr True"
    "gt0_at r ''Revenue'' = Inr True"
    by (auto simp: valid_row_def split: sum.splits)
  then show ?thesis by (meson *)
qed

lemma valid_mask_pairs:
  "valid_mask rs = Inr flags \<Longrightarrow> (r, True) \<in> set (zip rs flags) \<Longrightarrow> valid_row r = Inr True"
  by (induction rs arbitrary: flags) (auto split: sum.splits)

lemma valid_data_rows:
  assumes "valid_mask rs = Inr flags" and "r \<in> set (valid_data rs flags)"
  shows "valid_row r = Inr True"
proof -
  from assms(2) have "(r, True) \<in> set (zip rs flags)"
    by (auto simp: valid_data_def)
  with assms(1) show ?thesis by (rule valid_mask_pairs)
qed

lemma sum_list_map_pos:
  fixes f :: "'a \<Rightarrow> rat"
  assumes "xs \<noteq> []" and "\<And>x. x \<in> set xs \<Longrightarrow> 0 < f x"
  shows "0 < sum_list (map f xs)"
  using assms
proof (induction xs)
  case Nil
  then show ?case by simp
next
  case (Cons x xs)
  have "0 \<le> sum_list (map f xs)"
    by (rule sum_list_nonneg) (use Cons.prems(2) in \<open>auto intro: less_imp_le\<close>)
  moreover have "0 < f x" using Cons.prems(2) by simp
  ultimately show ?case by simp
qed

lemma valid_totals_positive:
  assumes "valid_mask rs = Inr flags" and "valid_data rs flags \<noteq> []"
  shows "0 < column_sum ''Tonnage'' (valid_data rs flags)"
    and "0 < column_sum ''Revenue'' (valid_data rs flags)"
proof -
  have t: "0 < cell_value (r ''Tonnage'')" and v: "0 < cell_value (r ''Revenue'')"
    if "r \<in> set (valid_data rs flags)" for r
    using valid_row_True [OF valid_data_rows [OF assms(1) that]]
    by (auto simp: cell_value_def)
  show "0 < column_sum ''Tonnage'' (valid_data rs flags)"
    unfolding column_sum_def using assms(2) t by (rule sum_list_map_pos)
  show "0 < column_sum ''Revenue'' (valid_data rs flags)"
    unfolding column_sum_def using assms(2) v by (rule sum_list_map_pos)
qed

lemma series_totals_positive:
  assumes "valid_mask (rows df) = Inr flags" and "valid_data (rows df) flags \<noteq> []"
    and "''Tonnage'' \<in> set (int64_columns df) \<longrightarrow>
           column_sum ''Tonnage'' (valid_data (rows df) flags) < 2 ^ 63"
    and "''Revenue'' \<in> set (int64_columns df) \<longrightarrow>
           column_sum ''Revenue'' (valid_data (rows df) flags) < 2 ^ 63"
  shows "series_sum df ''Tonnage'' (valid_data (rows df) flags)
           = column_sum ''Tonnage'' (valid_data (rows df) flags)"
    and "series_sum df ''Revenue'' (valid_data (rows df) flags)
           = column_sum ''Revenue'' (valid_data (rows df) flags)"
    and "0 < series_sum df ''Tonnage'' (valid_data (rows df) flags)"
    and "0 < series_sum df ''Revenue'' (valid_data (rows df) flags)"
proof -
  note pos = valid_totals_positive [OF assms(1,2)]
  show t: "series_sum df ''Tonnage'' (valid_data (rows df) flags)
           = column_sum ''Tonnage'' (valid_data (rows df) flags)"
    using assms(3) pos(1) by (intro series_sum_exact) simp_all
  show r: "series_sum df ''Revenue'' (valid_data (rows df) flags)
           = column_sum ''Revenue'' (valid_data (rows df) flags)"
    using assms(4) pos(2) by (intro series_sum_exact) simp_all
  show "0 < series_sum df ''Tonnage'' (valid_data (rows df) flags)"
    and "0 < series_sum df ''Revenue'' (valid_data (rows df) flags)"
    using pos by (simp_all only: t r)
qed

text \<open>
  Claim C9 says that the test \<^verbatim>\<open>total_current_tonnage == 0 or total_current_revenue == 0\<close>
  can never hold when at least one row is valid. On an \<^verbatim>\<open>int64\<close> tonnage column the sum
  wraps around: four valid rows of tonnage \<open>2\<^sup>6\<^sup>2\<close> have the exact total \<open>2\<^sup>6\<^sup>4\<close>, the code's
  total is \<open>0\<close>, and the Allocator returns the input unchanged through that branch.
\<close>

theorem abort_branch_reached:
  "valid_mask (rows overflow_sheet) = Inr [True, True, True, True] \<and>
   length (valid_data (rows overflow_sheet) [True, True, True, True]) = 4 \<and>
   column_sum ''Tonnage'' (valid_data (rows overflow_sheet) [True, True, True, True])
     = 18446744073709551616 \<and>
   series_sum overflow_sheet ''Tonnage''
       (valid_data (rows overflow_sheet) [True, True, True, True]) = 0 \<and>
   calculate_smart_recommendations overflow_sheet 800 2400 3 = overflow_sheet"
proof -
  have ne: "\<not> df_empty overflow_sheet" "missing_cols overflow_sheet = []"
    by (simp_all add: overflow_sheet_def df_empty_def missing_cols_def required_cols_def)
  have v: "valid_row overflow_row = Inr True"
    by (simp add: overflow_row_def valid_row_def gt0_at_def)
  then have m: "valid_mask (rows overflow_sheet) = Inr [True, True, True, True]"
    by (simp add: overflow_sheet_def)
  have d: "valid_data (rows overflow_sheet) [True, True, True, True]
             = [overflow_row, overflow_row, overflow_row, overflow_row]"
    by (simp add: overflow_sheet_def valid_data_def)
  have c: "column_sum ''Tonnage'' [overflow_row, overflow_row, overflow_row, overflow_row]
             = 18446744073709551616"
    by (simp add: column_sum_def cell_value_def overflow_row_def)
  have "wrap_int64 18446744073709551616 = 0"
    by code_simp
  then have s: "series_sum overflow_sheet ''Tonnage''
                  [overflow_row, overflow_row, overflow_row, overflow_row] = 0"
    by (simp add: series_sum_def c overflow_sheet_def)
  have "calculate_smart_recommendations overflow_sheet 800 2400 3 = overflow_sheet"
    using ne m by (simp add: calculate_smart_recommendations_def d s Let_def)
  with m d c s show ?thesis by simp
qed

text \<open>
  Claim C9, amended: when the validity mask was computed and selects at least one row, and
  neither the Tonnage nor the Revenue column is an \<^verbatim>\<open>int64\<close> column whose exact total over
  the valid rows reaches \<open>2\<^sup>6\<^sup>3\<close>, both totals the code computes are strictly positive, so
  the branch that returns the input unchanged is not taken.
\<close>

theorem abort_branch_unreachable:
  assumes "valid_mask (rows df) = Inr flags" and "valid_data (rows df) flags \<noteq> []"
    and "''Tonnage'' \<in> set (int64_columns df) \<longrightarrow>
           column_sum ''Tonnage'' (valid_data (rows df) flags) < 2 ^ 63"
    and "''Revenue'' \<in> set (int64_columns df) \<longrightarrow>
           column_sum ''Revenue'' (valid_data (rows df) flags) < 2 ^ 63"
  shows "0 < series_sum df ''Tonnage'' (valid_data (rows df) flags) \<and>
         0 < series_sum df ''Revenue'' (valid_data (rows df) flags) \<and>
         \<not> (series_sum df ''Tonnage'' (valid_data (rows df) flags) = 0 \<or>
            series_sum df ''Revenue'' (valid_data (rows df) flags) = 0)"
  using series_totals_positive(3,4) [OF assms] by simp

theorem abort_branch_unreachable_witness:
  "valid_mask (rows whole_sheet) = Inr [True, True] \<and>
   valid_data (rows whole_sheet) [True, True] \<noteq> [] \<and>
   ''Tonnage'' \<in> set (int64_columns whole_sheet) \<and>
   ''Revenue'' \<in> set (int64_columns whole_sheet) \<and>
   column_sum ''Tonnage'' (valid_data (rows whole_sheet) [True, True]) = 400 \<and>
   column_sum ''Revenue'' (valid_data (rows whole_sheet) [True, True]) = 1150 \<and>
   series_sum whole_sheet ''Tonnage'' (valid_data (rows whole_sheet) [True, True]) = 400 \<and>
   series_sum whole_sheet ''Revenue'' (valid_data (rows whole_sheet) [True, True]) = 1150 \<and>
   0 < series_sum whole_sheet ''Tonnage'' (valid_data (rows whole_sheet) [True, True]) \<and>
   0 < series_sum whole_sheet ''Revenue'' (valid_data (rows whole_sheet) [True, True])"
proof -
  have m: "valid_mask (rows whole_sheet) = Inr [True, True]"
    by (simp add: whole_sheet_def valid_row_def gt0_at_def)
  have d: "valid_data (rows whole_sheet) [True, True] \<noteq> []"
    by (simp add: whole_sheet_def valid_data_def)
  have i: "''Tonnage'' \<in> set (int64_columns whole_sheet)"
    "''Revenue'' \<in> set (int64_columns whole_sheet)"
    by (simp_all add: whole_sheet_def)
  have c: "column_sum ''Tonnage'' (valid_data (rows whole_sheet) [True, True]) = 400"
    "column_sum ''Revenue'' (valid_data (rows whole_sheet) [True, True]) = 1150"
    by (simp_all add: whole_sheet_def valid_data_def column_sum_def cell_value_def)
  have s: "series_sum whole_sheet ''Tonnage'' (valid_data (rows whole_sheet) [True, True]) = 400"
    "series_sum whole_sheet ''Revenue'' (valid_data (rows whole_sheet) [True, True]) = 1150"
    using i c by (simp_all add: series_sum_def wrap_int64_in_range)
  have b: "''Tonnage'' \<in> set (int64_columns whole_sheet) \<longrightarrow>
             column_sum ''Tonnage'' (valid_data (rows whole_sheet) [True, True]) < 2 ^ 63"
    "''Revenue'' \<in> set (int64_columns whole_sheet) \<longrightarrow>
             column_sum ''Revenue'' (valid_data (rows whole_sheet) [True, True]) < 2 ^ 63"
    using c by simp_all
  show ?thesis using abort_branch_unreachable [OF m d b] m d i c s by simp
qed

section \<open>Conservation of the targets\<close>















section \<open>The equal-split fallback\<close>

lemma no_valid_mask:
  "\<forall>r \<in> set rs. valid_row r = Inr False \<Longrightarrow>
   valid_mask rs = Inr (replicate (length rs) False)"
  by (induction rs) simp_all

lemma valid_data_none: "valid_data rs (replicate (length rs) False) = []"
proof -
  have "filter snd (zip rs (replicate n False)) = []" for n
    by (induction rs arbitrary: n) (auto simp: filter_empty_conv set_zip)
  then show ?thesis by (simp add: valid_data_def)
qed

text \<open>
  Claim C6 says that, on every non-empty table with no valid row and with positive targets,
  the Allocator writes the equal split into every row and normalizes the result. When a
  cell of the three columns holds text, the comparison that builds the validity mask
  raises and the handler of the whole function returns the input: the table below has no
  valid row, and its first row keeps tonnage \<open>0\<close> where the normalized equal split of the
  target \<open>1000\<close> over two rows gives \<open>500\<close>.
\<close>

theorem equal_split_counterexample:
  "valid_row (rows zero_and_text ! 0) = Inr False \<and>
   valid_row (rows zero_and_text ! 1) = Inl TypeError \<and>
   calculate_smart_recommendations zero_and_text 1000 5000 5 = zero_and_text \<and>
   (rows (calculate_smart_recommendations zero_and_text 1000 5000 5) ! 0) ''Tonnage''
     = Some (Num 0) \<and>
   (rows (equal_distribution zero_and_text 1000 5000 5) ! 0) ''Tonnage'' = Some (Num 500) \<and>
   (rows (clean_and_validate_data (equal_distribution zero_and_text 1000 5000 5)) ! 0) ''Tonnage''
     = Some (Num 500)"
proof -
  have ne: "\<not> df_empty zero_and_text" "missing_cols zero_and_text = []"
    by (simp_all add: zero_and_text_def df_empty_def missing_cols_def required_cols_def)
  have v: "valid_row (rows zero_and_text ! 0) = Inr False"
    "valid_row (rows zero_and_text ! 1) = Inl TypeError"
    by (simp_all add: zero_and_text_def valid_row_def gt0_at_def)
  have m: "valid_mask (rows zero_and_text) = Inl TypeError"
    by (simp add: zero_and_text_def valid_row_def gt0_at_def)
  have r: "calculate_smart_recommendations zero_and_text 1000 5000 5 = zero_and_text"
    using ne m by (simp add: calculate_smart_recommendations_def)
  have z: "(rows zero_and_text ! 0) ''Tonnage'' = Some (Num 0)"
    by (simp add: zero_and_text_def)
  have e: "(rows (equal_distribution zero_and_text 1000 5000 5) ! 0) ''Tonnage''
             = Some (Num 500)"
    "(rows (clean_and_validate_data (equal_distribution zero_and_text 1000 5000 5)) ! 0)
       ''Tonnage'' = Some (Num 500)"
    by code_simp+
  from v r z e show ?thesis by simp
qed

text \<open>
  Claim C6, amended: on a non-empty table with the three columns in which the validity
  test evaluates to false on every row (every cell of the three columns is a number or
  missing, and no row has all three positive), and with strictly positive targets, the
  Allocator returns the Normalizer's result on the equal distribution: the table in which
  every row holds tonnage \<open>T\<^sub>t / n\<close>, yield \<open>T\<^sub>y\<close> and revenue \<open>T\<^sub>r / n\<close>, \<open>n\<close> being the number
  of rows, and every other cell is as in the input.
\<close>

theorem equal_split_fallback:
  assumes "\<not> df_empty df" and "missing_cols df = []"
    and "\<forall>r \<in> set (rows df). valid_row r = Inr False"
    and "0 < tt" and "0 < tr" and "0 < ty"
  shows "calculate_smart_recommendations df tt tr ty
           = clean_and_validate_data (equal_distribution df tt tr ty) \<and>
         length (rows (equal_distribution df tt tr ty)) = length (rows df) \<and>
         (\<forall>i < length (rows df).
            (rows (equal_distribution df tt tr ty) ! i) ''Tonnage''
              = Some (Num (tt / of_nat (length (rows df)))) \<and>
            (rows (equal_distribution df tt tr ty) ! i) ''Yield'' = Some (Num ty) \<and>
            (rows (equal_distribution df tt tr ty) ! i) ''Revenue''
              = Some (Num (tr / of_nat (length (rows df)))) \<and>
            (\<forall>col. col \<notin> set required_cols \<longrightarrow>
               (rows (equal_distribution df tt tr ty) ! i) col = (rows df ! i) col))"
proof -
  have m: "valid_mask (rows df) = Inr (replicate (length (rows df)) False)"
    using assms(3) by (rule no_valid_mask)
  have "calculate_smart_recommendations df tt tr ty
           = clean_and_validate_data (equal_distribution df tt tr ty)"
    using assms(1,2,4-6) m
    by (simp add: calculate_smart_recommendations_def valid_data_none)
  then show ?thesis
    by (simp add: equal_distribution_simps equal_split_def required_cols_def)
qed

theorem equal_split_fallback_witness:
  "\<not> df_empty no_valid_rows \<and> missing_cols no_valid_rows = [] \<and>
   map valid_row (rows no_valid_rows) = [Inr False, Inr False, Inr False] \<and>
   length (rows no_valid_rows) = 3 \<and>
   calculate_smart_recommendations no_valid_rows 1000 5000 5
     = clean_and_validate_data (equal_distribution no_valid_rows 1000 5000 5) \<and>
   (rows (equal_distribution no_valid_rows 1000 5000 5) ! 1) ''Tonnage''
     = Some (Num (1000 / 3)) \<and>
   (rows (equal_distribution no_valid_rows 1000 5000 5) ! 1) ''Yield'' = Some (Num 5) \<and>
   (rows (equal_distribution no_valid_rows 1000 5000 5) ! 1) ''Revenue''
     = Some (Num (5000 / 3)) \<and>
   (rows (equal_distribution no_valid_rows 1000 5000 5) ! 1) ''Agent'' = Some Bad \<and>
   (rows (calculate_smart_recommendations no_valid_rows 1000 5000 5) ! 1) ''Tonnage''
     = Some (Num 333) \<and>
   (rows (calculate_smart_recommendations no_valid_rows 1000 5000 5) ! 1) ''Yield''
     = Some (Num 5) \<and>
   (rows (calculate_smart_recommendations no_valid_rows 1000 5000 5) ! 1) ''Revenue''
     = Some (Num (166667 / 100))"
proof -
  have h: "\<not> df_empty no_valid_rows" "missing_cols no_valid_rows = []"
    by (simp_all add: no_valid_rows_def df_empty_def missing_cols_def required_cols_def)
  have v: "map valid_row (rows no_valid_rows) = [Inr False, Inr False, Inr False]"
    by (simp add: no_valid_rows_def valid_row_def gt0_at_def)
  then have a: "\<forall>r \<in> set (rows no_valid_rows). valid_row r = Inr False"
    by (simp add: no_valid_rows_def valid_row_def gt0_at_def)
  have n: "length (rows no_valid_rows) = 3" by (simp add: no_valid_rows_def)
  have t: "(0::rat) < 1000" "(0::rat) < 5000" "(0::rat) < 5" by simp_all
  have agent: "(rows no_valid_rows ! 1) ''Agent'' = Some Bad" by (simp add: no_valid_rows_def)
  have other: "''Agent'' \<notin> set required_cols" by (simp add: required_cols_def)
  have out: "(rows (calculate_smart_recommendations no_valid_rows 1000 5000 5) ! 1) ''Tonnage''
     = Some (Num 333)"
    "(rows (calculate_smart_recommendations no_valid_rows 1000 5000 5) ! 1) ''Yield''
     = Some (Num 5)"
    "(rows (calculate_smart_recommendations no_valid_rows 1000 5000 5) ! 1) ''Revenue''
     = Some (Num (166667 / 100))"
    by code_simp+
  note inst = equal_split_fallback [OF h a t]
  from inst have eq: "calculate_smart_recommendations no_valid_rows 1000 5000 5
     = clean_and_validate_data (equal_distribution no_valid_rows 1000 5000 5)"
    by blast
  from inst n have cells:
    "(rows (equal_distribution no_valid_rows 1000 5000 5) ! 1) ''Tonnage''
       = Some (Num (1000 / 3))"
    "(rows (equal_distribution no_valid_rows 1000 5000 5) ! 1) ''Yield'' = Some (Num 5)"
    "(rows (equal_distribution no_valid_rows 1000 5000 5) ! 1) ''Revenue''
       = Some (Num (5000 / 3))"
    "(rows (equal_distribution no_valid_rows 1000 5000 5) ! 1) ''Agent''
       = (rows no_valid_rows ! 1) ''Agent''"
    using other by simp_all
  from h v n eq cells agent out show ?thesis by simp
qed

section \<open>Scenario A\<close>

text \<open>
  Claim C7: on Scenario A with targets \<open>(800, 2400, 3)\<close> the totals over the valid rows
  are \<open>400\<close> and \<open>1100\<close>, the tonnage weights \<open>1/4\<close> and \<open>3/4\<close>, the revenue weights
  \<open>2/11 = 0.1818\<dots>\<close> and \<open>9/11 = 0.8182\<dots>\<close>, the combined weights \<open>19/88 = 0.2159\<dots>\<close>
  and \<open>69/88 = 0.7841\<dots>\<close>. The rows are allocated tonnage \<open>1900/11 = 172.7\<dots>\<close> and
  \<open>6900/11 = 627.3\<dots>\<close>, revenue \<open>5700/11 = 518.2\<dots>\<close> and \<open>20700/11 = 1881.8\<dots>\<close>, and
  yield \<open>3\<close>; the Normalizer returns them as \<open>(173, 518.18, 3)\<close> and
  \<open>(627, 1881.82, 3)\<close>.
\<close>

theorem scenario_A_allocation:
  "valid_mask (rows scenario_A) = Inr [True, True] \<and>
   column_sum ''Tonnage'' (valid_data (rows scenario_A) [True, True]) = 400 \<and>
   column_sum ''Revenue'' (valid_data (rows scenario_A) [True, True]) = 1100 \<and>
   series_sum scenario_A ''Tonnage'' (valid_data (rows scenario_A) [True, True]) = 400 \<and>
   series_sum scenario_A ''Revenue'' (valid_data (rows scenario_A) [True, True]) = 1100 \<and>
   map (tonnage_weight 400) (rows scenario_A) = [1 / 4, 3 / 4] \<and>
   map (revenue_weight 1100) (rows scenario_A) = [2 / 11, 9 / 11] \<and>
   map (combined_weight 400 1100) (rows scenario_A) = [19 / 88, 69 / 88] \<and>
   map (distribute_row 800 2400 3 400 1100 (rows scenario_A ! 0, True))
       [''Tonnage'', ''Revenue'', ''Yield'']
     = [Some (Num (1900 / 11)), Some (Num (5700 / 11)), Some (Num 3)] \<and>
   map (distribute_row 800 2400 3 400 1100 (rows scenario_A ! 1, True))
       [''Tonnage'', ''Revenue'', ''Yield'']
     = [Some (Num (6900 / 11)), Some (Num (20700 / 11)), Some (Num 3)] \<and>
   map (rows (calculate_smart_recommendations scenario_A 800 2400 3) ! 0)
       [''Tonnage'', ''Revenue'', ''Yield'']
     = [Some (Num 173), Some (Num (51818 / 100)), Some (Num 3)] \<and>
   map (rows (calculate_smart_recommendations scenario_A 800 2400 3) ! 1)
       [''Tonnage'', ''Revenue'', ''Yield'']
     = [Some (Num 627), Some (Num (188182 / 100)), Some (Num 3)] \<and>
   length (rows (calculate_smart_recommendations scenario_A 800 2400 3)) = 2"
  by code_simp

end
